theory Spec2Isabelle
  imports Complex_Main "HOL-Library.Char_ord" "HOL-Library.List_Lexorder"
begin

section \<open>Data model\<close>

text \<open>
  The script \<^verbatim>\<open>Scraper_Borsa_Script.py\<close> downloads price histories for the tickers of
  an index in batches. Tickers are strings. Exceptions are values: every function of the
  script that can raise returns \<open>exn + 'a\<close>, with \<open>Inl\<close> the raised exception. Only
  exceptions below Python's \<open>Exception\<close> are modelled (the handlers of the script are
  all \<open>except Exception\<close>).
\<close>

type_synonym ticker = string

datatype exn =
    Exception string
  | IndexError
  | ValueError
  | RetryError exn

section \<open>Batch planning (line 80 of the script)\<close>

text \<open>
  \<^verbatim>\<open>batches = [tickers[i:i + args.batch_size]
             for i in range(0, len(tickers), args.batch_size)]\<close>

  \<open>range_length\<close> is the number of elements of a Python range with a positive step;
  \<open>py_range\<close> is \<open>range(start, stop, step)\<close> on integers, which raises
  \<open>ValueError\<close> for a zero step and counts downwards for a negative one.
  \<open>py_slice\<close> is \<open>xs[i:j]\<close>: negative bounds count from the end and both bounds
  are clipped to the list.
\<close>

definition range_length :: "int \<Rightarrow> int \<Rightarrow> int \<Rightarrow> nat" where
  "range_length lo hi step = (if lo < hi then nat ((hi - lo - 1) div step + 1) else 0)"

definition py_range :: "int \<Rightarrow> int \<Rightarrow> int \<Rightarrow> exn + int list" where
  "py_range start stop step =
     (if step = 0 then Inl ValueError
      else if 0 < step then
        Inr (map (\<lambda>k. start + int k * step) [0..<range_length start stop step])
      else
        Inr (map (\<lambda>k. start + int k * step) [0..<range_length stop start (- step)]))"

definition slice_bound :: "nat \<Rightarrow> int \<Rightarrow> nat" where
  "slice_bound n k = (if k < 0 then nat (max (k + int n) 0) else nat (min k (int n)))"

definition py_slice :: "'a list \<Rightarrow> int \<Rightarrow> int \<Rightarrow> 'a list" where
  "py_slice xs i j =
     (let lo = slice_bound (length xs) i; hi = slice_bound (length xs) j
      in take (hi - lo) (drop lo xs))"

definition batch_plan :: "ticker list \<Rightarrow> int \<Rightarrow> exn + ticker list list" where
  "batch_plan tickers batch_size =
     (case py_range 0 (int (length tickers)) batch_size of
        Inl e \<Rightarrow> Inl e
      | Inr idx \<Rightarrow> Inr (map (\<lambda>i. py_slice tickers i (i + batch_size)) idx))"

text \<open>
  A structurally simpler description of the same plan for a positive size, used only in
  proofs: cut \<open>n\<close> elements off the front until nothing is left.
\<close>

function chunks :: "nat \<Rightarrow> 'a list \<Rightarrow> 'a list list" where
  "chunks n xs = (if n = 0 \<or> xs = [] then [] else take n xs # chunks n (drop n xs))"
  by pat_completeness auto
termination
  by (relation "measure (\<lambda>(n, xs). length xs)") auto

declare chunks.simps [simp del]


section \<open>Index constituents (lines 28 to 37)\<close>

text \<open>
  \<^verbatim>\<open>yf.Ticker(index_ticker).constituents\<close> is a call into the external provider. Its
  outcome is a parameter of the model: it raises, or it returns a value that is
  \<open>None\<close>, some object that is not a table, or a table given by its columns (a
  missing cell, NaN or None, is \<open>None\<close>).
\<close>

datatype constituents =
    PyNone
  | NotDataFrame
  | DataFrame "string \<Rightarrow> string option list option"

type_synonym constituents_provider = "string \<Rightarrow> exn + constituents"

definition default_tickers :: "ticker list" where
  "default_tickers = [''ENI.MI'', ''ENEL.MI'', ''ISP.MI'', ''UCG.MI'', ''LDO.MI'', ''STLAM.MI'']"

text \<open>\<open>Series.dropna()\<close> and \<open>Series.unique()\<close> (first occurrences, in order).\<close>

definition dropna_series :: "'a option list \<Rightarrow> 'a list" where
  "dropna_series cells = [s. Some s \<leftarrow> cells]"

fun unique_from :: "'a list \<Rightarrow> 'a list \<Rightarrow> 'a list" where
  "unique_from seen [] = []"
| "unique_from seen (x # xs) =
     (if x \<in> set seen then unique_from seen xs else x # unique_from (x # seen) xs)"

definition unique :: "'a list \<Rightarrow> 'a list" where
  "unique xs = unique_from [] xs"

text \<open>
  The body of the \<open>try\<close> block: \<open>Inl e\<close> when it raises, \<open>Inr (Some symbols)\<close> when
  it returns, \<open>Inr None\<close> when control falls through the \<open>if\<close>.
\<close>

definition constituents_try :: "constituents_provider \<Rightarrow> string \<Rightarrow> exn + ticker list option" where
  "constituents_try yf_constituents index_ticker =
     (case yf_constituents index_ticker of
        Inl e \<Rightarrow> Inl e
      | Inr comps \<Rightarrow>
          (case comps of
             DataFrame columns \<Rightarrow>
               (case columns ''Symbol'' of
                  Some cells \<Rightarrow> Inr (Some (unique (dropna_series cells)))
                | None \<Rightarrow> Inr None)
           | _ \<Rightarrow> Inr None))"

definition get_index_constituents :: "constituents_provider \<Rightarrow> string \<Rightarrow> exn + ticker list" where
  "get_index_constituents yf_constituents index_ticker =
     (case constituents_try yf_constituents index_ticker of
        Inr (Some symbols) \<Rightarrow> Inr symbols
      | Inr None \<Rightarrow> Inr default_tickers
      | Inl e \<Rightarrow> Inr default_tickers)"

section \<open>Price tables, the provider and the observable effects\<close>

text \<open>
  A row of a price table; a missing value is \<open>None\<close>. \<open>dropna\<close> keeps the rows with
  no missing value. A row of a table produced by \<open>download_batch\<close> carries the added
  \<open>Ticker\<close> column.
\<close>

record price_row =
  Date :: nat
  Open :: "real option"
  High :: "real option"
  Low :: "real option"
  Close :: "real option"
  Adj_Close :: "real option"
  Volume :: "real option"

record tagged_row =
  row :: price_row
  Ticker :: ticker

definition complete :: "price_row \<Rightarrow> bool" where
  "complete r \<longleftrightarrow>
     Open r \<noteq> None \<and> High r \<noteq> None \<and> Low r \<noteq> None \<and> Close r \<noteq> None
     \<and> Adj_Close r \<noteq> None \<and> Volume r \<noteq> None"

definition dropna :: "price_row list \<Rightarrow> price_row list" where
  "dropna df = filter complete df"

definition tag :: "ticker \<Rightarrow> price_row list \<Rightarrow> tagged_row list" where
  "tag t df = map (\<lambda>r. \<lparr>row = r, Ticker = t\<rparr>) df"

text \<open>
  The response of \<open>yf.download\<close>: a table whose columns are a \<open>MultiIndex\<close> keyed by
  ticker, where \<open>df[t]\<close> gives the sub-table of \<open>t\<close> or raises, or a flat table.
\<close>

datatype response =
    MultiIndex "ticker \<Rightarrow> exn + price_row list"
  | Flat "price_row list"

text \<open>
  The provider is external and may answer every call differently: its outcome is a
  function of the number of calls made before and of the arguments.
\<close>

type_synonym provider = "nat \<Rightarrow> ticker list \<Rightarrow> string \<Rightarrow> string \<Rightarrow> exn + response"

text \<open>
  The effects of a run, in the order they happen: calls of the provider, the sleeps of
  the retry policy (in seconds), the pause between batches
  (\<open>time.sleep(random.uniform(1, 3))\<close>, whose length is not modelled), and the lines
  appended to \<^verbatim>\<open>errors.log\<close>. A line is kept as its parts: \<open>Errore t e\<close> is
  \<^verbatim>\<open>f"Errore {t}: {e}\n"\<close> and \<open>Errore_batch batch e\<close> is
  \<^verbatim>\<open>f"Errore batch {batch}: {e}\n"\<close>. Appending to the file is taken to succeed.
\<close>

datatype log_line =
    Errore ticker exn
  | Errore_batch "ticker list" exn

datatype event =
    Call "ticker list" string string
  | Sleep nat
  | Throttle
  | Log log_line

record world =
  ncalls :: nat
  events :: "event list"

definition emit :: "event \<Rightarrow> world \<Rightarrow> world" where
  "emit ev w = w\<lparr>events := events w @ [ev]\<rparr>"

definition yf_download :: "provider \<Rightarrow> ticker list \<Rightarrow> string \<Rightarrow> string \<Rightarrow> world \<Rightarrow> (exn + response) \<times> world" where
  "yf_download p tickers period interval w =
     (p (ncalls w) tickers period interval,
      emit (Call tickers period interval) (w\<lparr>ncalls := Suc (ncalls w)\<rparr>))"

definition errors_log :: "world \<Rightarrow> log_line list" where
  "errors_log w = [l. Log l \<leftarrow> events w]"

section \<open>download_batch (lines 40 to 66)\<close>

text \<open>
  The loop over the tickers of a \<open>MultiIndex\<close> response (lines 47 to 54): a ticker
  whose extraction raises is logged and skipped.
\<close>

fun extract_tickers ::
  "(ticker \<Rightarrow> exn + price_row list) \<Rightarrow> ticker list \<Rightarrow> tagged_row list list \<Rightarrow> world
     \<Rightarrow> tagged_row list list \<times> world" where
  "extract_tickers df [] results w = (results, w)"
| "extract_tickers df (t # ts) results w =
     (case df t of
        Inr dft \<Rightarrow> extract_tickers df ts (results @ [tag t (dropna dft)]) w
      | Inl e \<Rightarrow> extract_tickers df ts results (emit (Log (Errore t e)) w))"

text \<open>
  The undecorated function. The outer handler re-raises the exception in both of its
  branches, so the model returns it unchanged. \<open>tickers[0]\<close> on an empty batch raises
  \<open>IndexError\<close> inside the \<open>try\<close>.
\<close>

definition download_batch_body ::
  "provider \<Rightarrow> ticker list \<Rightarrow> string \<Rightarrow> string \<Rightarrow> world \<Rightarrow> (exn + tagged_row list list) \<times> world" where
  "download_batch_body p tickers period interval w =
     (case yf_download p tickers period interval w of
        (Inl e, w1) \<Rightarrow> (Inl e, w1)
      | (Inr (MultiIndex df), w1) \<Rightarrow>
          (case extract_tickers df tickers [] w1 of (results, w2) \<Rightarrow> (Inr results, w2))
      | (Inr (Flat df), w1) \<Rightarrow>
          (case tickers of
             [] \<Rightarrow> (Inl IndexError, w1)
           | t # _ \<Rightarrow> (Inr [tag t (dropna df)], w1)))"

text \<open>
  Modelled from the spec: the wait policy
  \<^verbatim>\<open>wait_exponential(multiplier=2, min=5, max=120)\<close> comes from the library
  tenacity, which is not part of the sources. The spec describes it as exponential
  backoff with base delay multiplier 2, minimum delay 5 and maximum delay 120
  time-units. Attempts are numbered from 1; the delay after the failed attempt \<open>k\<close>
  is \<open>multiplier * 2 ^ (k - 1)\<close> clamped to \<open>[min, max]\<close>.
\<close>

definition wait_exponential :: "nat \<Rightarrow> nat \<Rightarrow> nat \<Rightarrow> nat \<Rightarrow> nat" where
  "wait_exponential multiplier min_wait max_wait attempt_number =
     max (max 0 min_wait) (min (multiplier * 2 ^ (attempt_number - 1)) max_wait)"

text \<open>
  Modelled from the spec: the decorator \<^verbatim>\<open>@retry(wait=..., stop=stop_after_attempt(5))\<close>
  is tenacity's as well. The spec describes it as a bounded loop with a sleep between
  attempts, capped at 5 attempts in total, that returns the result or propagates the
  last failure: a call that returns ends the loop; a call that raises is followed by the
  sleep and the next attempt, unless it was the last attempt, whose failure is raised to
  the caller (wrapped as \<open>RetryError\<close>).
\<close>

function retry_call ::
  "(nat \<Rightarrow> nat) \<Rightarrow> nat \<Rightarrow> (world \<Rightarrow> (exn + 'a) \<times> world) \<Rightarrow> nat \<Rightarrow> world \<Rightarrow> (exn + 'a) \<times> world" where
  "retry_call wait max_attempt_number fn attempt_number w =
     (case fn w of
        (Inr result, w1) \<Rightarrow> (Inr result, w1)
      | (Inl e, w1) \<Rightarrow>
          if max_attempt_number \<le> attempt_number then (Inl (RetryError e), w1)
          else retry_call wait max_attempt_number fn (Suc attempt_number)
                 (emit (Sleep (wait attempt_number)) w1))"
  by pat_completeness auto
termination
  by (relation "measure (\<lambda>(wait, max_attempt_number, fn, attempt_number, w).
        max_attempt_number - attempt_number)") auto

declare retry_call.simps [simp del]

definition download_batch ::
  "provider \<Rightarrow> ticker list \<Rightarrow> string \<Rightarrow> string \<Rightarrow> world \<Rightarrow> (exn + tagged_row list list) \<times> world" where
  "download_batch p tickers period interval =
     retry_call (wait_exponential 2 5 120) 5 (download_batch_body p tickers period interval) 1"

section \<open>The driver (lines 79 to 89)\<close>

text \<open>
  The loop over the batches, with \<open>rows\<close> the accumulated tables. A batch whose
  download raises is logged; the pause follows every batch.
\<close>

fun main_loop ::
  "provider \<Rightarrow> string \<Rightarrow> string \<Rightarrow> ticker list list \<Rightarrow> tagged_row list list \<Rightarrow> world
     \<Rightarrow> tagged_row list list \<times> world" where
  "main_loop p period interval [] rows w = (rows, w)"
| "main_loop p period interval (batch # batches) rows w =
     (case download_batch p batch period interval w of
        (Inr batch_data, w1) \<Rightarrow>
          main_loop p period interval batches (rows @ batch_data) (emit Throttle w1)
      | (Inl e, w1) \<Rightarrow>
          main_loop p period interval batches rows
            (emit Throttle (emit (Log (Errore_batch batch e)) w1)))"

section \<open>Saving the results (lines 91 to 108)\<close>

text \<open>
  The files written, in order, each with its name inside the output directory. The
  summary \<^verbatim>\<open>all_df.groupby("Ticker")["Close"].agg(["min", "max", "mean", "std"])\<close>
  is computed by pandas; it is the parameter \<open>groupby_agg\<close>.
\<close>

datatype 's content =
    Table "tagged_row list"
  | Stats 's

definition safe_ticker :: "ticker \<Rightarrow> string" where
  "safe_ticker t = map (\<lambda>c. if c = CHR ''.'' then CHR ''_'' else c) t"

fun save_tables :: "string \<Rightarrow> string \<Rightarrow> tagged_row list list \<Rightarrow> (string \<times> 's content) list" where
  "save_tables period interval [] = []"
| "save_tables period interval (df # rows) =
     (case df of
        [] \<Rightarrow> save_tables period interval rows
      | r # _ \<Rightarrow>
          (safe_ticker (Ticker r) @ ''_'' @ period @ ''_'' @ interval @ ''.csv'', Table df)
            # save_tables period interval rows)"

definition save_results ::
  "(tagged_row list \<Rightarrow> 's) \<Rightarrow> string \<Rightarrow> string \<Rightarrow> tagged_row list list \<Rightarrow> (string \<times> 's content) list" where
  "save_results groupby_agg period interval rows =
     save_tables period interval rows @
     (if rows \<noteq> [] then
        [(''all_history.csv'', Table (concat rows)),
         (''summary_stats.csv'', Stats (groupby_agg (concat rows)))]
      else [])"

section \<open>The summary statistics (lines 105 to 108)\<close>

text \<open>
  Modelled from the spec: the aggregation
  \<^verbatim>\<open>all_df.groupby("Ticker")["Close"].agg(["min", "max", "mean", "std"]).reset_index()\<close>
  is computed by the library pandas, which is not part of the sources. The spec describes
  the summary as one row per ticker with the (min, max, mean, standard-deviation) of the
  closing price of that ticker's rows, the standard deviation being the sample standard
  deviation (denominator \<open>N - 1\<close>), which for a single price is NaN and not an error.
  Numbers are reals (rounding is not modelled) and NaN is \<open>None\<close>. The statistics of a
  ticker range over its non-missing closing prices; the groups are listed in increasing
  order of the ticker.
\<close>

record summary_row =
  group :: ticker
  min_close :: "real option"
  max_close :: "real option"
  mean_close :: "real option"
  std_close :: "real option"

definition closes :: "ticker \<Rightarrow> tagged_row list \<Rightarrow> real list" where
  "closes t all_df = dropna_series (map (\<lambda>r. Close (row r)) (filter (\<lambda>r. Ticker r = t) all_df))"

definition agg_min :: "real list \<Rightarrow> real option" where
  "agg_min xs = (case xs of [] \<Rightarrow> None | x # ys \<Rightarrow> Some (fold min ys x))"

definition agg_max :: "real list \<Rightarrow> real option" where
  "agg_max xs = (case xs of [] \<Rightarrow> None | x # ys \<Rightarrow> Some (fold max ys x))"

definition agg_mean :: "real list \<Rightarrow> real option" where
  "agg_mean xs = (if xs = [] then None else Some (sum_list xs / real (length xs)))"

definition agg_std :: "real list \<Rightarrow> real option" where
  "agg_std xs =
     (if length xs \<le> 1 then None
      else Some (sqrt (sum_list (map (\<lambda>x. (x - sum_list xs / real (length xs))\<^sup>2) xs)
                        / real (length xs - 1))))"

definition groupby_close_agg :: "tagged_row list \<Rightarrow> summary_row list" where
  "groupby_close_agg all_df =
     map (\<lambda>t. \<lparr>group = t,
               min_close = agg_min (closes t all_df),
               max_close = agg_max (closes t all_df),
               mean_close = agg_mean (closes t all_df),
               std_close = agg_std (closes t all_df)\<rparr>)
       (sort (remdups (map Ticker all_df)))"

section \<open>main (lines 69 to 110)\<close>

text \<open>
  The whole run from the parsed arguments. The progress bar and the two \<open>print\<close>
  calls are not modelled. An exception that leaves \<open>main\<close> ends the run.
\<close>

record args =
  arg_index :: string
  arg_period :: string
  arg_interval :: string
  arg_batch_size :: int

definition main ::
  "constituents_provider \<Rightarrow> provider \<Rightarrow> (tagged_row list \<Rightarrow> 's) \<Rightarrow> args \<Rightarrow> world
     \<Rightarrow> exn + (string \<times> 's content) list \<times> world" where
  "main yf_constituents p groupby_agg a w =
     (case get_index_constituents yf_constituents (arg_index a) of
        Inl e \<Rightarrow> Inl e
      | Inr tickers \<Rightarrow>
          (case batch_plan tickers (arg_batch_size a) of
             Inl e \<Rightarrow> Inl e
           | Inr batches \<Rightarrow>
               (case main_loop p (arg_period a) (arg_interval a) batches [] w of
                  (rows, w1) \<Rightarrow>
                    Inr (save_results groupby_agg (arg_period a) (arg_interval a) rows, w1))))"

section \<open>The provider's contract\<close>

text \<open>
  Modelled from the spec: the historical-price query of the external provider (yfinance,
  not part of the sources) is described as "returning either a per-ticker keyed table or,
  for a single ticker, a flat table", the flat shape occurring when the batch contains
  exactly one ticker. \<open>provider_contract\<close> says this of every call that returns.
\<close>

definition provider_contract :: "provider \<Rightarrow> bool" where
  "provider_contract p \<longleftrightarrow>
     (\<forall>n tickers period interval resp.
        p n tickers period interval = Inr resp \<longrightarrow>
          ((\<exists>df. resp = Flat df) \<longleftrightarrow> length tickers = 1))"

section \<open>Notions used to state the properties\<close>

text \<open>
  The events a single \<open>download_batch\<close> can produce: provider calls, backoff sleeps
  and per-ticker log lines, but neither the pause between batches nor a batch-level log
  line.
\<close>

definition fetch_event :: "event \<Rightarrow> bool" where
  "fetch_event ev = (case ev of
      Call tickers period interval \<Rightarrow> True
    | Sleep d \<Rightarrow> True
    | Log (Errore t e) \<Rightarrow> True
    | Log (Errore_batch batch e) \<Rightarrow> False
    | Throttle \<Rightarrow> False)"

text \<open>
  What \<open>download_batch\<close> gives for each batch of a run, in order: every batch is
  downloaded in the state in which the driver reaches it, that is after the log line of
  a failed predecessor and after the pause.
\<close>

fun batch_outcomes ::
  "provider \<Rightarrow> string \<Rightarrow> string \<Rightarrow> ticker list list \<Rightarrow> world \<Rightarrow> (exn + tagged_row list list) list" where
  "batch_outcomes p period interval [] w = []"
| "batch_outcomes p period interval (batch # batches) w =
     (case download_batch p batch period interval w of
        (Inr batch_data, w1) \<Rightarrow>
          Inr batch_data # batch_outcomes p period interval batches (emit Throttle w1)
      | (Inl e, w1) \<Rightarrow>
          Inl e # batch_outcomes p period interval batches
                    (emit Throttle (emit (Log (Errore_batch batch e)) w1)))"

text \<open>The tables of the batches that succeeded, in order.\<close>

definition succeeded_tables :: "(exn + tagged_row list list) list \<Rightarrow> tagged_row list list" where
  "succeeded_tables outcomes = concat [batch_data. Inr batch_data \<leftarrow> outcomes]"

text \<open>Concrete data for the examples: a complete row, a row with a missing close, a fresh run.\<close>

definition example_row :: price_row where
  "example_row = \<lparr>Date = 1, Open = Some 10, High = Some 12, Low = Some 9, Close = Some 11,
     Adj_Close = Some 11, Volume = Some 1000\<rparr>"

definition missing_row :: price_row where
  "missing_row = \<lparr>Date = 2, Open = Some 11, High = Some 12, Low = Some 10, Close = None,
     Adj_Close = None, Volume = Some 0\<rparr>"

definition start :: world where
  "start = \<lparr>ncalls = 0, events = []\<rparr>"

text \<open>A complete row with a given date and closing price, for the summary's examples.\<close>

definition close_row :: "ticker \<Rightarrow> nat \<Rightarrow> real \<Rightarrow> tagged_row" where
  "close_row t d c =
     \<lparr>row = \<lparr>Date = d, Open = Some c, High = Some c, Low = Some c, Close = Some c,
              Adj_Close = Some c, Volume = Some 1\<rparr>,
      Ticker = t\<rparr>"


text \<open>
  Tables for the summary's example: closing prices 100, 200 for T3, 10, 20, 30 for T1,
  5, 5, 5 for T2 and the single price 42 for T4.
\<close>

definition example_tables :: "tagged_row list list" where
  "example_tables =
     [[close_row ''T3'' 1 100, close_row ''T3'' 2 200],
      [close_row ''T1'' 1 10, close_row ''T1'' 2 20, close_row ''T1'' 3 30],
      [close_row ''T2'' 1 5, close_row ''T2'' 2 5, close_row ''T2'' 3 5],
      [close_row ''T4'' 1 42]]"

section \<open>Properties of batch planning\<close>

lemma range_length_step:
  assumes "0 < n" "xs \<noteq> []"
  shows "range_length 0 (int (length xs)) (int n) = Suc (range_length 0 (int (length (drop n xs))) (int n))"
proof (cases "length xs \<le> n")
  case True
  with assms have "(int (length xs) - 1) div int n = 0"
    by (simp add: div_pos_pos_trivial)
  with True assms show ?thesis by (simp add: range_length_def)
next
  case False
  then have gt: "n < length xs" by simp
  have "(int (length xs) - 0 - 1) = (int (length xs - n) - 1) + 1 * int n"
    using gt by (simp add: of_nat_diff)
  then have "(int (length xs) - 0 - 1) div int n = (int (length xs - n) - 1) div int n + 1"
    using assms(1) by (metis div_add_self2 of_nat_0_less_iff less_numeral_extra(3) mult.commute mult.right_neutral div_mult_self1)
  moreover have "0 \<le> (int (length xs - n) - 1) div int n"
    using gt assms(1) by (simp add: pos_imp_zdiv_nonneg_iff)
  ultimately show ?thesis
    using gt assms by (simp add: range_length_def nat_add_distrib)
qed

lemma py_slice_take_drop:
  "py_slice xs (int i) (int i + int n) = take n (drop i xs)"
proof -
  have lo: "slice_bound (length xs) (int i) = min i (length xs)"
    by (simp add: slice_bound_def min_def)
  have hi: "slice_bound (length xs) (int i + int n) = min (i + n) (length xs)"
    by (simp add: slice_bound_def min_def nat_add_distrib)
  show ?thesis
    by (cases "i \<le> length xs") (simp_all add: py_slice_def Let_def lo hi min_def)
qed

lemma chunks_map:
  "0 < n \<Longrightarrow> map (\<lambda>k. take n (drop (k * n) xs)) [0..<range_length 0 (int (length xs)) (int n)] = chunks n xs"
proof (induction n xs rule: chunks.induct)
  case (1 n xs)
  show ?case
  proof (cases "xs = []")
    case True
    then show ?thesis by (simp add: chunks.simps range_length_def)
  next
    case False
    have ih: "map (\<lambda>k. take n (drop (k * n) (drop n xs))) [0..<range_length 0 (int (length (drop n xs))) (int n)] = chunks n (drop n xs)"
      using 1 False by simp
    have "map (\<lambda>k. take n (drop (k * n) xs)) [0..<Suc (range_length 0 (int (length (drop n xs))) (int n))]
        = take n xs # map (\<lambda>k. take n (drop (Suc k * n) xs)) [0..<range_length 0 (int (length (drop n xs))) (int n)]"
      by (simp only: upt_conv_Cons zero_less_Suc list.map map_Suc_upt [symmetric] map_map o_def) simp
    also have "\<dots> = take n xs # chunks n (drop n xs)"
      using ih by (simp add: add.commute)
    finally show ?thesis
      using False 1(2) range_length_step [OF 1(2) False] by (simp add: chunks.simps [of n xs])
  qed
qed


lemma py_range_pos:
  "0 < n \<Longrightarrow> py_range 0 (int len) (int n) =
     Inr (map (\<lambda>k. int (k * n)) [0..<range_length 0 (int len) (int n)])"
  by (simp add: py_range_def)

lemma batch_plan_chunks:
  assumes "0 < n"
  shows "batch_plan tickers (int n) = Inr (chunks n tickers)"
proof -
  have "map (\<lambda>i. py_slice tickers i (i + int n))
          (map (\<lambda>k. int (k * n)) [0..<range_length 0 (int (length tickers)) (int n)])
        = map (\<lambda>k. take n (drop (k * n) tickers)) [0..<range_length 0 (int (length tickers)) (int n)]"
    by (simp only: map_map o_def py_slice_take_drop)
  then show ?thesis
    using assms by (simp only: batch_plan_def py_range_pos [OF assms] sum.case chunks_map [OF assms])
qed

lemma chunks_Nil [simp]: "chunks n [] = []"
  by (simp add: chunks.simps [of n "[]"])

lemma concat_chunks: "0 < n \<Longrightarrow> concat (chunks n xs) = xs"
proof (induction n xs rule: chunks.induct)
  case (1 n xs)
  then show ?case by (cases "xs = []") (simp_all add: chunks.simps [of n xs])
qed

lemma chunks_eq_Nil: "0 < n \<Longrightarrow> chunks n xs = [] \<longleftrightarrow> xs = []"
  by (simp add: chunks.simps [of n xs])

lemma chunks_nonempty: "0 < n \<Longrightarrow> b \<in> set (chunks n xs) \<Longrightarrow> b \<noteq> [] \<and> length b \<le> n"
proof (induction n xs rule: chunks.induct)
  case (1 n xs)
  then show ?case by (cases "xs = []") (auto simp add: chunks.simps [of n xs])
qed

lemma chunks_butlast: "0 < n \<Longrightarrow> b \<in> set (butlast (chunks n xs)) \<Longrightarrow> length b = n"
proof (induction n xs rule: chunks.induct)
  case (1 n xs)
  show ?case
  proof (cases "xs = []")
    case True
    with 1 show ?thesis by (simp add: chunks.simps [of n xs])
  next
    case False
    show ?thesis
    proof (cases "drop n xs = []")
      case True
      with 1 False show ?thesis by (simp add: chunks.simps [of n xs] chunks.simps [of n "[]"])
    next
      case ne: False
      then have "chunks n (drop n xs) \<noteq> []" using 1(2) by (simp add: chunks_eq_Nil)
      with 1 False ne show ?thesis
        by (auto simp add: chunks.simps [of n xs])
    qed
  qed
qed

text \<open>
  Claim C2. For every ticker list and every batch size \<open>B > 0\<close> the batch plan is an
  ordered partition of the list: the plan is produced (no error), the batches
  concatenated in order give the list back, every batch but the last has exactly \<open>B\<close>
  elements, every batch (so also the last) has between 1 and \<open>B\<close> elements, and there
  is no batch at all exactly when the list is empty.
\<close>

theorem batch_plan_partition:
  assumes "0 < batch_size"
  shows "\<exists>batches. batch_plan tickers batch_size = Inr batches
           \<and> concat batches = tickers
           \<and> (\<forall>b \<in> set (butlast batches). int (length b) = batch_size)
           \<and> (\<forall>b \<in> set batches. 1 \<le> length b \<and> int (length b) \<le> batch_size)
           \<and> (batches \<noteq> [] \<longrightarrow> 1 \<le> length (last batches) \<and> int (length (last batches)) \<le> batch_size)
           \<and> (batches = [] \<longleftrightarrow> tickers = [])"
proof -
  obtain n where n: "batch_size = int n" "0 < n"
    using assms by (metis zero_less_imp_eq_int)
  have ne: "\<forall>b \<in> set (chunks n tickers). 1 \<le> length b \<and> int (length b) \<le> batch_size"
    using chunks_nonempty [OF n(2)] n(1) by (fastforce simp add: Suc_le_eq)
  have "batch_plan tickers batch_size = Inr (chunks n tickers)"
    using n by (simp add: batch_plan_chunks)
  moreover have "concat (chunks n tickers) = tickers"
    using n by (simp add: concat_chunks)
  moreover have "\<forall>b \<in> set (butlast (chunks n tickers)). int (length b) = batch_size"
    using n(1) by (auto dest: chunks_butlast [OF n(2)])
  moreover have "chunks n tickers \<noteq> [] \<longrightarrow>
      1 \<le> length (last (chunks n tickers)) \<and> int (length (last (chunks n tickers))) \<le> batch_size"
    using ne by (meson last_in_set)
  moreover have "chunks n tickers = [] \<longleftrightarrow> tickers = []"
    using n by (simp add: chunks_eq_Nil)
  ultimately show ?thesis using ne by blast
qed

theorem batch_plan_partition_witness:
  "(0::int) < 2
   \<and> batch_plan [''ENI.MI'', ''ENEL.MI'', ''ISP.MI'', ''UCG.MI'', ''LDO.MI''] 2
       = Inr [[''ENI.MI'', ''ENEL.MI''], [''ISP.MI'', ''UCG.MI''], [''LDO.MI'']]
   \<and> concat [[''ENI.MI'', ''ENEL.MI''], [''ISP.MI'', ''UCG.MI''], [''LDO.MI'']]
       = [''ENI.MI'', ''ENEL.MI'', ''ISP.MI'', ''UCG.MI'', ''LDO.MI'']"
proof -
  have pos: "(0::int) < 2" by simp
  have run: "batch_plan [''ENI.MI'', ''ENEL.MI'', ''ISP.MI'', ''UCG.MI'', ''LDO.MI''] 2
       = Inr [[''ENI.MI'', ''ENEL.MI''], [''ISP.MI'', ''UCG.MI''], [''LDO.MI'']]"
    by code_simp
  from batch_plan_partition [OF pos, of "[''ENI.MI'', ''ENEL.MI'', ''ISP.MI'', ''UCG.MI'', ''LDO.MI'']"]
  obtain batches where
    "batch_plan [''ENI.MI'', ''ENEL.MI'', ''ISP.MI'', ''UCG.MI'', ''LDO.MI''] 2 = Inr batches"
    "concat batches = [''ENI.MI'', ''ENEL.MI'', ''ISP.MI'', ''UCG.MI'', ''LDO.MI'']"
    by blast
  with run pos show ?thesis by simp
qed

text \<open>
  Claim C7 says that planning with a batch size \<open>\<le> 0\<close> raises an error. The script
  does not validate the size: with a negative size \<open>range\<close> is empty and the plan is
  the empty list, without any error.
\<close>

theorem batch_plan_negative_counterexample:
  "batch_plan [''ENI.MI'', ''ENEL.MI''] (- 1) = Inr [] \<and> \<not> isl (batch_plan [''ENI.MI'', ''ENEL.MI''] (- 1))"
  by (simp add: batch_plan_def py_range_def range_length_def)

text \<open>
  Claim C7, amended. For a batch size \<open>\<le> 0\<close>: size 0 makes planning raise
  (\<open>ValueError\<close>, from \<open>range\<close>); a negative size gives the empty batch list and no
  error.
\<close>

theorem batch_plan_nonpositive:
  assumes "batch_size \<le> 0"
  shows "batch_plan tickers batch_size = (if batch_size = 0 then Inl ValueError else Inr [])"
  using assms by (simp add: batch_plan_def py_range_def range_length_def)

theorem batch_plan_nonpositive_witness:
  "batch_plan [''ENI.MI'', ''ENEL.MI''] 0 = Inl ValueError
   \<and> batch_plan [''ENI.MI'', ''ENEL.MI''] (- 3) = Inr []"
  using batch_plan_nonpositive [of 0 "[''ENI.MI'', ''ENEL.MI'']"]
        batch_plan_nonpositive [of "- 3" "[''ENI.MI'', ''ENEL.MI'']"]
  by simp

section \<open>Properties of download_batch\<close>

lemma events_emit [simp]: "events (emit ev w) = events w @ [ev]"
  by (simp add: emit_def)

lemma ncalls_emit [simp]: "ncalls (emit ev w) = ncalls w"
  by (simp add: emit_def)

lemma extract_tickers_eq:
  "extract_tickers df ts results w =
     (results @ map (\<lambda>t. tag t (dropna (projr (df t)))) (filter (\<lambda>t. \<not> isl (df t)) ts),
      w\<lparr>events := events w @ map (\<lambda>t. Log (Errore t (projl (df t)))) (filter (\<lambda>t. isl (df t)) ts)\<rparr>)"
proof (induction ts arbitrary: results w)
  case Nil
  show ?case by simp
next
  case (Cons t ts)
  show ?case
  proof (cases "df t")
    case (Inl e)
    then show ?thesis by (simp add: Cons.IH emit_def)
  next
    case (Inr dft)
    then show ?thesis by (simp add: Cons.IH)
  qed
qed

lemma download_batch_body_raise:
  "p (ncalls w) tickers period interval = Inl e \<Longrightarrow>
   download_batch_body p tickers period interval w =
     (Inl e, emit (Call tickers period interval) (w\<lparr>ncalls := Suc (ncalls w)\<rparr>))"
  by (simp add: download_batch_body_def yf_download_def)

lemma download_batch_body_multi:
  "p (ncalls w) tickers period interval = Inr (MultiIndex df) \<Longrightarrow>
   download_batch_body p tickers period interval w =
     (Inr (map (\<lambda>t. tag t (dropna (projr (df t)))) (filter (\<lambda>t. \<not> isl (df t)) tickers)),
      w\<lparr>ncalls := Suc (ncalls w),
        events := events w @ Call tickers period interval
                   # map (\<lambda>t. Log (Errore t (projl (df t)))) (filter (\<lambda>t. isl (df t)) tickers)\<rparr>)"
  by (simp add: download_batch_body_def yf_download_def extract_tickers_eq emit_def)

lemma download_batch_body_flat:
  "p (ncalls w) (t # ts) period interval = Inr (Flat df) \<Longrightarrow>
   download_batch_body p (t # ts) period interval w =
     (Inr [tag t (dropna df)],
      w\<lparr>ncalls := Suc (ncalls w), events := events w @ [Call (t # ts) period interval]\<rparr>)"
  by (simp add: download_batch_body_def yf_download_def emit_def)

lemma retry_call_success:
  "fn w = (Inr result, w1) \<Longrightarrow> retry_call wait max_attempt_number fn attempt_number w = (Inr result, w1)"
  by (simp add: retry_call.simps [of wait max_attempt_number fn attempt_number w])

lemma retry_call_retry:
  "fn w = (Inl e, w1) \<Longrightarrow> attempt_number < max_attempt_number \<Longrightarrow>
   retry_call wait max_attempt_number fn attempt_number w =
     retry_call wait max_attempt_number fn (Suc attempt_number) (emit (Sleep (wait attempt_number)) w1)"
  by (simp add: retry_call.simps [of wait max_attempt_number fn attempt_number w])

lemma retry_call_give_up:
  "fn w = (Inl e, w1) \<Longrightarrow> max_attempt_number \<le> attempt_number \<Longrightarrow>
   retry_call wait max_attempt_number fn attempt_number w = (Inl (RetryError e), w1)"
  by (simp add: retry_call.simps [of wait max_attempt_number fn attempt_number w])

lemma download_batch_success:
  "download_batch_body p tickers period interval w = (Inr result, w1) \<Longrightarrow>
   download_batch p tickers period interval w = (Inr result, w1)"
  by (simp add: download_batch_def retry_call_success)

lemma wait_exponential_bounds:
  "wait_exponential 2 5 120 k = max 5 (min 120 (2 * 2 ^ (k - 1)))
   \<and> 5 \<le> wait_exponential 2 5 120 k \<and> wait_exponential 2 5 120 k \<le> 120"
  by (simp add: wait_exponential_def min.commute)

lemma wait_exponential_values:
  "map (wait_exponential 2 5 120) [1, 2, 3, 4] = [5, 5, 8, 16]"
  by (simp add: wait_exponential_def)

lemma download_batch_five_failures:
  assumes fails: "\<forall>k<5. p (ncalls w + k) tickers period interval = Inl (err k)"
  shows "download_batch p tickers period interval w =
     (Inl (RetryError (err 4)),
      w\<lparr>ncalls := ncalls w + 5,
        events := events w @
          [Call tickers period interval, Sleep (wait_exponential 2 5 120 1),
           Call tickers period interval, Sleep (wait_exponential 2 5 120 2),
           Call tickers period interval, Sleep (wait_exponential 2 5 120 3),
           Call tickers period interval, Sleep (wait_exponential 2 5 120 4),
           Call tickers period interval]\<rparr>)"
proof -
  let ?W = "wait_exponential 2 5 120"
  let ?body = "download_batch_body p tickers period interval"
  define call where "call w' = emit (Call tickers period interval) (w'\<lparr>ncalls := Suc (ncalls w')\<rparr>)" for w'
  have body: "?body w' = (Inl (err k), call w')" if "k < 5" "ncalls w' = ncalls w + k" for w' k
    using that fails by (simp add: download_batch_body_raise call_def)
  have again: "retry_call ?W 5 ?body (Suc k) w' =
      retry_call ?W 5 ?body (Suc (Suc k)) (emit (Sleep (?W (Suc k))) (call w'))"
    if "k < 4" "ncalls w' = ncalls w + k" for w' k
  proof -
    have "?body w' = (Inl (err k), call w')" using that by (simp add: body)
    then show ?thesis using that(1) by (simp add: retry_call_retry)
  qed
  have stop: "retry_call ?W 5 ?body 5 w' = (Inl (RetryError (err 4)), call w')"
    if "ncalls w' = ncalls w + 4" for w'
  proof -
    have "?body w' = (Inl (err 4), call w')" using that by (simp add: body)
    then show ?thesis by (simp add: retry_call_give_up)
  qed
  have n: "ncalls (call w') = Suc (ncalls w')" for w'
    by (simp add: call_def)
  define w1 where "w1 = emit (Sleep (?W 1)) (call w)"
  define w2 where "w2 = emit (Sleep (?W 2)) (call w1)"
  define w3 where "w3 = emit (Sleep (?W 3)) (call w2)"
  define w4 where "w4 = emit (Sleep (?W 4)) (call w3)"
  have n1: "ncalls w1 = ncalls w + 1" by (simp add: w1_def n)
  have n2: "ncalls w2 = ncalls w + 2" by (simp add: w2_def n n1)
  have n3: "ncalls w3 = ncalls w + 3" by (simp add: w3_def n n2)
  have n4: "ncalls w4 = ncalls w + 4" by (simp add: w4_def n n3)
  have "retry_call ?W 5 ?body 1 w = retry_call ?W 5 ?body 2 w1"
    using again [of 0 w] by (simp add: w1_def numeral_2_eq_2)
  also have "\<dots> = retry_call ?W 5 ?body 3 w2"
    using again [of 1 w1] n1 by (simp add: w2_def numeral_2_eq_2 numeral_3_eq_3)
  also have "\<dots> = retry_call ?W 5 ?body 4 w3"
    using again [of 2 w2] n2 by (simp add: w3_def eval_nat_numeral)
  also have "\<dots> = retry_call ?W 5 ?body 5 w4"
    using again [of 3 w3] n3 by (simp add: w4_def eval_nat_numeral)
  also have "\<dots> = (Inl (RetryError (err 4)), call w4)"
    using stop [OF n4] .
  finally have "download_batch p tickers period interval w = (Inl (RetryError (err 4)), call w4)"
    by (simp add: download_batch_def)
  moreover have "call w4 = w\<lparr>ncalls := ncalls w + 5,
        events := events w @
          [Call tickers period interval, Sleep (?W 1),
           Call tickers period interval, Sleep (?W 2),
           Call tickers period interval, Sleep (?W 3),
           Call tickers period interval, Sleep (?W 4),
           Call tickers period interval]\<rparr>"
    by (simp add: w4_def w3_def w2_def w1_def call_def emit_def)
  ultimately show ?thesis by simp
qed

text \<open>
  Claim C1. When the provider raises on each of the five calls made for a batch,
  \<open>download_batch\<close> calls it exactly five times, sleeps between consecutive
  attempts (four sleeps, none after the last attempt), and then raises to its caller: the
  result is the error \<open>RetryError\<close> around the exception of the fifth attempt, not a
  value. The delays are \<open>2 * 2 ^ (k - 1)\<close> clamped to \<open>[5, 120]\<close>, that is
  5, 5, 8 and 16 seconds.
\<close>

theorem download_batch_retry_cap:
  assumes "\<forall>k<5. p (ncalls w + k) tickers period interval = Inl (err k)"
  shows "download_batch p tickers period interval w =
     (Inl (RetryError (err 4)),
      w\<lparr>ncalls := ncalls w + 5,
        events := events w @
          [Call tickers period interval, Sleep (wait_exponential 2 5 120 1),
           Call tickers period interval, Sleep (wait_exponential 2 5 120 2),
           Call tickers period interval, Sleep (wait_exponential 2 5 120 3),
           Call tickers period interval, Sleep (wait_exponential 2 5 120 4),
           Call tickers period interval]\<rparr>)
   \<and> map (wait_exponential 2 5 120) [1, 2, 3, 4] = [5, 5, 8, 16]
   \<and> (\<forall>k. wait_exponential 2 5 120 k = max 5 (min 120 (2 * 2 ^ (k - 1)))
         \<and> 5 \<le> wait_exponential 2 5 120 k \<and> wait_exponential 2 5 120 k \<le> 120)"
  using download_batch_five_failures [of p w tickers period interval err] assms
    wait_exponential_values wait_exponential_bounds
  by blast

theorem download_batch_retry_cap_witness:
  "download_batch (\<lambda>n ts per itv. Inl (Exception ''Too Many Requests''))
      [''ENI.MI'', ''ENEL.MI''] ''1y'' ''1d'' \<lparr>ncalls = 0, events = []\<rparr> =
     (Inl (RetryError (Exception ''Too Many Requests'')),
      \<lparr>ncalls = 5,
       events =
         [Call [''ENI.MI'', ''ENEL.MI''] ''1y'' ''1d'', Sleep 5,
          Call [''ENI.MI'', ''ENEL.MI''] ''1y'' ''1d'', Sleep 5,
          Call [''ENI.MI'', ''ENEL.MI''] ''1y'' ''1d'', Sleep 8,
          Call [''ENI.MI'', ''ENEL.MI''] ''1y'' ''1d'', Sleep 16,
          Call [''ENI.MI'', ''ENEL.MI''] ''1y'' ''1d'']\<rparr>)"
  using download_batch_retry_cap
    [of "\<lambda>n ts per itv. Inl (Exception ''Too Many Requests'')"
        "\<lparr>ncalls = 0, events = []\<rparr>" "[''ENI.MI'', ''ENEL.MI'']" "''1y''" "''1d''"
        "\<lambda>k. Exception ''Too Many Requests''"]
  by (simp add: wait_exponential_def)

section \<open>Properties of get_index_constituents\<close>

lemma unique_eq_Nil: "unique xs = [] \<longleftrightarrow> xs = []"
  by (cases xs) (simp_all add: unique_def)

lemma dropna_series_eq_Nil: "dropna_series cells = [] \<longleftrightarrow> (\<forall>c \<in> set cells. c = None)"
  by (induction cells) (auto simp add: dropna_series_def split: option.splits)

lemma default_tickers_nonempty: "default_tickers \<noteq> [] \<and> length default_tickers = 6"
  by (simp add: default_tickers_def)

text \<open>
  Claim C3 says that \<open>get_index_constituents\<close> always returns a non-empty list. When
  the provider returns a table that has a \<open>Symbol\<close> column with no entry, the function
  returns that column's symbols: the empty list, not the fallback.
\<close>

theorem get_index_constituents_empty_counterexample:
  "get_index_constituents (\<lambda>i. Inr (DataFrame [''Symbol'' \<mapsto> []])) ''FTSEMIB.MI'' = Inr []"
  by (simp add: get_index_constituents_def constituents_try_def unique_def dropna_series_def)

text \<open>
  Claim C3, amended. For every index identifier and every behaviour of the provider,
  \<open>get_index_constituents\<close> raises nothing and returns a list. The list is the
  fallback of six tickers (so non-empty) when the provider raises, returns \<open>None\<close> or
  something that is not a table, or returns a table without a \<open>Symbol\<close> column. When
  the table has a \<open>Symbol\<close> column the list is that column's non-missing symbols
  without repetitions, which is empty exactly when the column has no non-missing entry.
\<close>

theorem get_index_constituents_total:
  "\<exists>symbols. get_index_constituents yf_constituents index_ticker = Inr symbols
     \<and> symbols = (case yf_constituents index_ticker of
          Inr (DataFrame columns) \<Rightarrow>
            (case columns ''Symbol'' of
               Some cells \<Rightarrow> unique (dropna_series cells)
             | None \<Rightarrow> default_tickers)
        | _ \<Rightarrow> default_tickers)
     \<and> (symbols = [] \<longleftrightarrow>
          (\<exists>columns cells. yf_constituents index_ticker = Inr (DataFrame columns)
             \<and> columns ''Symbol'' = Some cells \<and> (\<forall>c \<in> set cells. c = None)))
     \<and> default_tickers \<noteq> []"
proof (cases "yf_constituents index_ticker")
  case (Inl e)
  then show ?thesis
    by (simp add: get_index_constituents_def constituents_try_def default_tickers_nonempty)
next
  case (Inr comps)
  show ?thesis
  proof (cases comps)
    case PyNone
    with Inr show ?thesis
      by (simp add: get_index_constituents_def constituents_try_def default_tickers_nonempty)
  next
    case NotDataFrame
    with Inr show ?thesis
      by (simp add: get_index_constituents_def constituents_try_def default_tickers_nonempty)
  next
    case (DataFrame columns)
    show ?thesis
    proof (cases "columns ''Symbol''")
      case None
      with Inr DataFrame show ?thesis
        by (simp add: get_index_constituents_def constituents_try_def default_tickers_nonempty)
    next
      case (Some cells)
      with Inr DataFrame show ?thesis
        by (simp add: get_index_constituents_def constituents_try_def default_tickers_nonempty
            unique_eq_Nil dropna_series_eq_Nil)
    qed
  qed
qed

theorem get_index_constituents_total_witness:
  "get_index_constituents (\<lambda>i. Inl (Exception ''no constituents'')) ''FTSEMIB.MI''
     = Inr [''ENI.MI'', ''ENEL.MI'', ''ISP.MI'', ''UCG.MI'', ''LDO.MI'', ''STLAM.MI'']
   \<and> get_index_constituents
       (\<lambda>i. Inr (DataFrame [''Symbol'' \<mapsto> [Some ''A.MI'', None, Some ''B.MI'', Some ''A.MI'']]))
       ''FTSEMIB.MI''
     = Inr [''A.MI'', ''B.MI'']"
proof -
  obtain s1 where s1:
    "get_index_constituents (\<lambda>i. Inl (Exception ''no constituents'')) ''FTSEMIB.MI'' = Inr s1"
    "s1 = default_tickers"
    using get_index_constituents_total
      [of "\<lambda>i. Inl (Exception ''no constituents'')" "''FTSEMIB.MI''"]
    by auto
  obtain s2 where s2:
    "get_index_constituents
       (\<lambda>i. Inr (DataFrame [''Symbol'' \<mapsto> [Some ''A.MI'', None, Some ''B.MI'', Some ''A.MI'']]))
       ''FTSEMIB.MI'' = Inr s2"
    "s2 = unique (dropna_series [Some ''A.MI'', None, Some ''B.MI'', Some ''A.MI''])"
    using get_index_constituents_total
      [of "\<lambda>i. Inr (DataFrame [''Symbol'' \<mapsto> [Some ''A.MI'', None, Some ''B.MI'', Some ''A.MI'']])"
          "''FTSEMIB.MI''"]
    by auto
  show ?thesis
    using s1 s2 by (simp add: default_tickers_def unique_def dropna_series_def)
qed

section \<open>Properties of the driver\<close>

lemma download_batch_body_events:
  assumes "download_batch_body p tickers period interval w = (r, w')"
  shows "\<exists>new. events w' = events w @ Call tickers period interval # new \<and> list_all fetch_event new"
proof (cases "p (ncalls w) tickers period interval")
  case (Inl e)
  with assms show ?thesis by (auto simp add: download_batch_body_raise)
next
  case (Inr resp)
  show ?thesis
  proof (cases resp)
    case (MultiIndex df)
    with Inr assms show ?thesis
      by (auto simp add: download_batch_body_multi list_all_iff fetch_event_def)
  next
    case (Flat df)
    with Inr assms show ?thesis
      by (cases tickers) (auto simp add: download_batch_body_def yf_download_def)
  qed
qed

lemma retry_call_events:
  "retry_call wait max_attempt_number fn attempt_number w = (r, w') \<Longrightarrow>
   (\<And>w r w'. fn w = (r, w') \<Longrightarrow>
      \<exists>new. events w' = events w @ c # new \<and> list_all fetch_event new) \<Longrightarrow>
   fetch_event c \<Longrightarrow>
   \<exists>new. events w' = events w @ c # new \<and> list_all fetch_event new"
proof (induction wait max_attempt_number fn attempt_number w rule: retry_call.induct)
  case (1 wait max_attempt_number fn attempt_number w)
  obtain r1 w1 where f: "fn w = (r1, w1)" by (cases "fn w")
  from 1(3) [OF f] obtain new1 where new1:
    "events w1 = events w @ c # new1" "list_all fetch_event new1" by blast
  show ?case
  proof (cases r1)
    case (Inr result)
    with f 1(2) new1 show ?thesis by (auto simp add: retry_call_success)
  next
    case (Inl e)
    show ?thesis
    proof (cases "max_attempt_number \<le> attempt_number")
      case True
      with f Inl 1(2) new1 show ?thesis by (auto simp add: retry_call_give_up)
    next
      case False
      then have again: "retry_call wait max_attempt_number fn (Suc attempt_number)
          (emit (Sleep (wait attempt_number)) w1) = (r, w')"
        using f Inl 1(2) by (simp add: retry_call_retry)
      have "\<exists>new2. events w' = events (emit (Sleep (wait attempt_number)) w1) @ c # new2
          \<and> list_all fetch_event new2"
      proof (rule 1(1) [OF f [symmetric] Inl False again])
        show "fetch_event c" by (rule 1(4))
        show "\<exists>new. events w0' = events w0 @ c # new \<and> list_all fetch_event new"
          if "fn w0 = (r0, w0')" for w0 r0 w0'
          using that by (rule 1(3))
      qed
      then obtain new2 where new2:
        "events w' = events (emit (Sleep (wait attempt_number)) w1) @ c # new2"
        "list_all fetch_event new2" by blast
      have "events w' = events w @ c # (new1 @ Sleep (wait attempt_number) # c # new2)"
        using new1 new2 by simp
      moreover have "list_all fetch_event (new1 @ Sleep (wait attempt_number) # c # new2)"
        using new1 new2 1(4) by (simp add: fetch_event_def)
      ultimately show ?thesis by blast
    qed
  qed
qed

lemma download_batch_events:
  assumes "download_batch p tickers period interval w = (r, w')"
  shows "\<exists>new. events w' = events w @ Call tickers period interval # new \<and> list_all fetch_event new"
proof (rule retry_call_events)
  show "retry_call (wait_exponential 2 5 120) 5 (download_batch_body p tickers period interval) 1 w = (r, w')"
    using assms by (simp add: download_batch_def)
  show "fetch_event (Call tickers period interval)"
    by (simp add: fetch_event_def)
  show "\<exists>new. events w'' = events w0 @ Call tickers period interval # new \<and> list_all fetch_event new"
    if "download_batch_body p tickers period interval w0 = (r0, w'')" for w0 r0 w''
    using that by (rule download_batch_body_events)
qed

lemma main_loop_append:
  "main_loop p period interval (xs @ ys) rows w =
     (case main_loop p period interval xs rows w of
        (rows1, w1) \<Rightarrow> main_loop p period interval ys rows1 w1)"
  by (induction xs arbitrary: rows w) (auto split: prod.splits sum.splits)

lemma main_loop_rows:
  "main_loop p period interval batches rows w =
     (rows @ fst (main_loop p period interval batches [] w),
      snd (main_loop p period interval batches [] w))"
proof (induction batches arbitrary: rows w)
  case Nil
  show ?case by simp
next
  case (Cons batch batches)
  obtain r w1 where d: "download_batch p batch period interval w = (r, w1)"
    by (cases "download_batch p batch period interval w")
  show ?case
  proof (cases r)
    case (Inl e)
    with d show ?thesis
      using Cons.IH [of rows "emit Throttle (emit (Log (Errore_batch batch e)) w1)"] by simp
  next
    case (Inr batch_data)
    with d show ?thesis
      using Cons.IH [of "rows @ batch_data" "emit Throttle w1"]
            Cons.IH [of batch_data "emit Throttle w1"] by simp
  qed
qed

lemma main_loop_events:
  "main_loop p period interval batches rows w = (rows', w') \<Longrightarrow>
   \<exists>new. events w' = events w @ new
     \<and> length (filter (\<lambda>ev. ev = Throttle) new) = length batches
     \<and> (\<forall>b \<in> set batches. Call b period interval \<in> set new)"
proof (induction batches arbitrary: rows w)
  case Nil
  then show ?case by simp
next
  case (Cons batch batches)
  obtain r w1 where d: "download_batch p batch period interval w = (r, w1)"
    by (cases "download_batch p batch period interval w")
  from download_batch_events [OF d] obtain new1 where new1:
    "events w1 = events w @ Call batch period interval # new1" "list_all fetch_event new1"
    by blast
  have no_throttle: "filter (\<lambda>ev. ev = Throttle) new1 = []"
    using new1(2) by (auto simp add: filter_empty_conv list_all_iff fetch_event_def)
  define w2 where "w2 = (case r of Inl e \<Rightarrow> emit (Log (Errore_batch batch e)) w1 | Inr batch_data \<Rightarrow> w1)"
  define rows2 where "rows2 = (case r of Inl e \<Rightarrow> rows | Inr batch_data \<Rightarrow> rows @ batch_data)"
  have step: "main_loop p period interval (batch # batches) rows w =
      main_loop p period interval batches rows2 (emit Throttle w2)"
    using d by (simp add: w2_def rows2_def split: sum.splits)
  obtain mid where mid: "events w2 = events w1 @ mid" "filter (\<lambda>ev. ev = Throttle) mid = []"
    by (cases r) (auto simp add: w2_def)
  from Cons.IH [of rows2 "emit Throttle w2"] Cons.prems step
  obtain new2 where new2:
    "events w' = events (emit Throttle w2) @ new2"
    "length (filter (\<lambda>ev. ev = Throttle) new2) = length batches"
    "\<forall>b \<in> set batches. Call b period interval \<in> set new2"
    by auto
  let ?new = "Call batch period interval # new1 @ mid @ Throttle # new2"
  have "events w' = events w @ ?new"
    using new1 mid new2 by simp
  moreover have "length (filter (\<lambda>ev. ev = Throttle) ?new) = length (batch # batches)"
    using no_throttle mid new2 by simp
  moreover have "\<forall>b \<in> set (batch # batches). Call b period interval \<in> set ?new"
    using new2 by auto
  ultimately show ?case by blast
qed

section \<open>Responses of the provider and per-ticker failures\<close>

lemma log_lines_map_Log: "[l. Log l \<leftarrow> map (\<lambda>t. Log (f t)) ts] = map f ts"
  by (induction ts) simp_all

lemma download_batch_multi:
  assumes "p (ncalls w) tickers period interval = Inr (MultiIndex df)"
  shows "download_batch p tickers period interval w =
     (Inr (map (\<lambda>t. tag t (dropna (projr (df t)))) (filter (\<lambda>t. \<not> isl (df t)) tickers)),
      w\<lparr>ncalls := Suc (ncalls w),
        events := events w @ Call tickers period interval
                   # map (\<lambda>t. Log (Errore t (projl (df t)))) (filter (\<lambda>t. isl (df t)) tickers)\<rparr>)"
  using assms by (simp add: download_batch_success download_batch_body_multi)

lemma download_batch_flat:
  assumes "p (ncalls w) (t # ts) period interval = Inr (Flat df)"
  shows "download_batch p (t # ts) period interval w =
     (Inr [tag t (dropna df)],
      w\<lparr>ncalls := Suc (ncalls w), events := events w @ [Call (t # ts) period interval]\<rparr>)"
  using assms by (simp add: download_batch_success download_batch_body_flat)

lemma dropna_example: "dropna [example_row, missing_row] = [example_row]"
  by (simp add: dropna_def complete_def example_row_def missing_row_def)

lemma download_batch_always_raising:
  "download_batch (\<lambda>n ts per itv. Inl (Exception ''Too Many Requests'')) [''ENI.MI''] ''1y'' ''1d'' start =
     (Inl (RetryError (Exception ''Too Many Requests'')),
      \<lparr>ncalls = 5,
       events = [Call [''ENI.MI''] ''1y'' ''1d'', Sleep 5, Call [''ENI.MI''] ''1y'' ''1d'', Sleep 5,
                 Call [''ENI.MI''] ''1y'' ''1d'', Sleep 8, Call [''ENI.MI''] ''1y'' ''1d'', Sleep 16,
                 Call [''ENI.MI''] ''1y'' ''1d'']\<rparr>)"
  using download_batch_five_failures
    [where p = "\<lambda>n ts per itv. Inl (Exception ''Too Many Requests'')" and w = start
       and tickers = "[''ENI.MI'']" and period = "''1y''" and interval = "''1d''"
       and err = "\<lambda>k. Exception ''Too Many Requests''"]
  by (simp add: start_def wait_exponential_def)

text \<open>
  Claim C5. The provider answers the batch \<open>pre @ t # post\<close> with a per-ticker keyed
  table and the extraction of \<open>t\<close> raises \<open>e\<close>. Then \<open>download_batch\<close> returns
  (it does not raise, and makes one provider call): the line \<open>Errore t e\<close> is appended
  to the log, in its place among the lines of the other failing tickers; \<open>t\<close> has no
  table in the result; and every other ticker of the batch whose extraction succeeds has
  its table in the result, with the missing-data rows dropped and tagged with the ticker,
  in batch order.
\<close>

theorem download_batch_skips_failed_ticker:
  assumes resp: "p (ncalls w) (pre @ t # post) period interval = Inr (MultiIndex df)"
      and fail: "df t = Inl e"
  shows "\<exists>results w'.
      download_batch p (pre @ t # post) period interval w = (Inr results, w')
    \<and> results = map (\<lambda>t. tag t (dropna (projr (df t)))) (filter (\<lambda>t. \<not> isl (df t)) pre)
              @ map (\<lambda>t. tag t (dropna (projr (df t)))) (filter (\<lambda>t. \<not> isl (df t)) post)
    \<and> (\<forall>t' \<in> set (pre @ post). \<forall>dft. df t' = Inr dft \<longrightarrow> tag t' (dropna dft) \<in> set results)
    \<and> ncalls w' = Suc (ncalls w)
    \<and> events w' = events w @ Call (pre @ t # post) period interval
         # map (\<lambda>t. Log (Errore t (projl (df t)))) (filter (\<lambda>t. isl (df t)) pre)
         @ Log (Errore t e)
         # map (\<lambda>t. Log (Errore t (projl (df t)))) (filter (\<lambda>t. isl (df t)) post)
    \<and> errors_log w' = errors_log w
         @ map (\<lambda>t. Errore t (projl (df t))) (filter (\<lambda>t. isl (df t)) pre)
         @ Errore t e
         # map (\<lambda>t. Errore t (projl (df t))) (filter (\<lambda>t. isl (df t)) post)"
proof -
  let ?results = "map (\<lambda>t. tag t (dropna (projr (df t)))) (filter (\<lambda>t. \<not> isl (df t)) pre)
              @ map (\<lambda>t. tag t (dropna (projr (df t)))) (filter (\<lambda>t. \<not> isl (df t)) post)"
  let ?evs = "Call (pre @ t # post) period interval
         # map (\<lambda>t. Log (Errore t (projl (df t)))) (filter (\<lambda>t. isl (df t)) pre)
         @ Log (Errore t e)
         # map (\<lambda>t. Log (Errore t (projl (df t)))) (filter (\<lambda>t. isl (df t)) post)"
  let ?w' = "w\<lparr>ncalls := Suc (ncalls w), events := events w @ ?evs\<rparr>"
  have run: "download_batch p (pre @ t # post) period interval w = (Inr ?results, ?w')"
    using download_batch_multi [where p = p and w = w, OF resp] fail by simp
  have kept: "\<forall>t' \<in> set (pre @ post). \<forall>dft. df t' = Inr dft \<longrightarrow> tag t' (dropna dft) \<in> set ?results"
    by (auto simp add: image_iff)
  have log: "errors_log ?w' = errors_log w
         @ map (\<lambda>t. Errore t (projl (df t))) (filter (\<lambda>t. isl (df t)) pre)
         @ Errore t e
         # map (\<lambda>t. Errore t (projl (df t))) (filter (\<lambda>t. isl (df t)) post)"
    by (simp add: errors_log_def log_lines_map_Log del: map_map)
  show ?thesis
    using run kept log by simp
qed

theorem download_batch_skips_failed_ticker_witness:
  "download_batch
      (\<lambda>n ts per itv. Inr (MultiIndex (\<lambda>t. if t = ''ENEL.MI'' then Inl (Exception ''ENEL.MI'')
                                             else Inr [example_row, missing_row])))
      [''ENI.MI'', ''ENEL.MI'', ''ISP.MI''] ''1y'' ''1d'' start =
     (Inr [[\<lparr>row = example_row, Ticker = ''ENI.MI''\<rparr>], [\<lparr>row = example_row, Ticker = ''ISP.MI''\<rparr>]],
      \<lparr>ncalls = 1,
       events = [Call [''ENI.MI'', ''ENEL.MI'', ''ISP.MI''] ''1y'' ''1d'',
                 Log (Errore ''ENEL.MI'' (Exception ''ENEL.MI''))]\<rparr>)"
proof -
  let ?df = "\<lambda>t. if t = ''ENEL.MI'' then Inl (Exception ''ENEL.MI'') else Inr [example_row, missing_row]"
  let ?p = "\<lambda>n ts per itv. Inr (MultiIndex ?df) :: exn + response"
  have resp: "?p (ncalls start) ([''ENI.MI''] @ ''ENEL.MI'' # [''ISP.MI'']) ''1y'' ''1d'' = Inr (MultiIndex ?df)"
    by simp
  have fail: "?df ''ENEL.MI'' = Inl (Exception ''ENEL.MI'')"
    by simp
  from download_batch_skips_failed_ticker [where p = ?p and w = start, OF resp fail]
  obtain results w' where
    run: "download_batch ?p ([''ENI.MI''] @ ''ENEL.MI'' # [''ISP.MI'']) ''1y'' ''1d'' start = (Inr results, w')"
    and results: "results = map (\<lambda>t. tag t (dropna (projr (?df t)))) (filter (\<lambda>t. \<not> isl (?df t)) [''ENI.MI''])
              @ map (\<lambda>t. tag t (dropna (projr (?df t)))) (filter (\<lambda>t. \<not> isl (?df t)) [''ISP.MI''])"
    and n: "ncalls w' = Suc (ncalls start)"
    and evs: "events w' = events start @ Call ([''ENI.MI''] @ ''ENEL.MI'' # [''ISP.MI'']) ''1y'' ''1d''
         # map (\<lambda>t. Log (Errore t (projl (?df t)))) (filter (\<lambda>t. isl (?df t)) [''ENI.MI''])
         @ Log (Errore ''ENEL.MI'' (Exception ''ENEL.MI''))
         # map (\<lambda>t. Log (Errore t (projl (?df t)))) (filter (\<lambda>t. isl (?df t)) [''ISP.MI''])"
    by blast
  have "results = [[\<lparr>row = example_row, Ticker = ''ENI.MI''\<rparr>], [\<lparr>row = example_row, Ticker = ''ISP.MI''\<rparr>]]"
    using results by (simp add: dropna_example tag_def)
  moreover have "w' = \<lparr>ncalls = 1,
       events = [Call [''ENI.MI'', ''ENEL.MI'', ''ISP.MI''] ''1y'' ''1d'',
                 Log (Errore ''ENEL.MI'' (Exception ''ENEL.MI''))]\<rparr>"
    using n evs by (cases w') (simp add: start_def)
  ultimately show ?thesis using run by simp
qed

text \<open>
  Claim C6. Under the provider's contract, a response is the flat table exactly when the
  batch has one ticker; and for a flat response \<open>download_batch\<close> returns one table,
  the rows of the flat table that have no missing value, each tagged with the only ticker
  of the batch, after a single provider call.
\<close>

theorem download_batch_flat_single:
  assumes contract: "provider_contract p"
      and resp: "p (ncalls w) tickers period interval = Inr resp"
  shows "((\<exists>df. resp = Flat df) \<longleftrightarrow> (\<exists>t. tickers = [t]))
    \<and> (\<forall>df. resp = Flat df \<longrightarrow>
         (\<exists>t. tickers = [t]
            \<and> download_batch p tickers period interval w =
                (Inr [map (\<lambda>r. \<lparr>row = r, Ticker = t\<rparr>) (filter complete df)],
                 w\<lparr>ncalls := Suc (ncalls w),
                   events := events w @ [Call tickers period interval]\<rparr>)))"
proof -
  have one: "length tickers = 1 \<longleftrightarrow> (\<exists>t. tickers = [t])"
    by (cases tickers) simp_all
  have shape: "(\<exists>df. resp = Flat df) \<longleftrightarrow> (\<exists>t. tickers = [t])"
    using contract resp one unfolding provider_contract_def by blast
  have "\<exists>t. tickers = [t]
            \<and> download_batch p tickers period interval w =
                (Inr [map (\<lambda>r. \<lparr>row = r, Ticker = t\<rparr>) (filter complete df)],
                 w\<lparr>ncalls := Suc (ncalls w),
                   events := events w @ [Call tickers period interval]\<rparr>)"
    if flat: "resp = Flat df" for df
  proof -
    from shape flat obtain t where t: "tickers = [t]" by blast
    have "p (ncalls w) (t # []) period interval = Inr (Flat df)"
      using resp flat t by simp
    from download_batch_flat [where p = p and w = w, OF this] t show ?thesis
      by (simp add: tag_def dropna_def)
  qed
  with shape show ?thesis by blast
qed

theorem download_batch_flat_single_witness:
  "provider_contract (\<lambda>n ts per itv. if length ts = 1 then Inr (Flat [example_row, missing_row])
                                       else Inr (MultiIndex (\<lambda>t. Inr [])))
   \<and> download_batch (\<lambda>n ts per itv. if length ts = 1 then Inr (Flat [example_row, missing_row])
                                       else Inr (MultiIndex (\<lambda>t. Inr [])))
      [''ENI.MI''] ''1y'' ''1d'' start =
     (Inr [[\<lparr>row = example_row, Ticker = ''ENI.MI''\<rparr>]],
      \<lparr>ncalls = 1, events = [Call [''ENI.MI''] ''1y'' ''1d'']\<rparr>)"
proof -
  let ?p = "\<lambda>n ts per itv. if length ts = 1 then Inr (Flat [example_row, missing_row])
                                       else Inr (MultiIndex (\<lambda>t. Inr [])) :: exn + response"
  have contract: "provider_contract ?p"
    by (simp add: provider_contract_def)
  have resp: "?p (ncalls start) [''ENI.MI''] ''1y'' ''1d'' = Inr (Flat [example_row, missing_row])"
    by simp
  from download_batch_flat_single [where p = ?p and w = start, OF contract resp]
  have "download_batch ?p [''ENI.MI''] ''1y'' ''1d'' start =
     (Inr [[\<lparr>row = example_row, Ticker = ''ENI.MI''\<rparr>]],
      \<lparr>ncalls = 1, events = [Call [''ENI.MI''] ''1y'' ''1d'']\<rparr>)"
    using dropna_example by (simp add: start_def dropna_def)
  with contract show ?thesis by simp
qed

text \<open>
  Claim C10. The provider answers with a per-ticker keyed table and the extraction raises
  for every ticker of the batch. Then \<open>download_batch\<close> returns the empty list without
  raising, after one provider call and no sleep (no retry), having logged one
  \<open>Errore\<close> line per ticker. In the driver the batch is a success: the accumulated
  tables are unchanged (it adds none), no \<open>Errore_batch\<close> line is logged, and the
  pause follows.
\<close>

theorem download_batch_all_tickers_fail:
  assumes resp: "p (ncalls w) tickers period interval = Inr (MultiIndex df)"
      and fail: "\<forall>t \<in> set tickers. isl (df t)"
  shows "download_batch p tickers period interval w =
      (Inr [],
       w\<lparr>ncalls := Suc (ncalls w),
         events := events w @ Call tickers period interval
                    # map (\<lambda>t. Log (Errore t (projl (df t)))) tickers\<rparr>)
    \<and> main_loop p period interval [tickers] rows w =
      (rows,
       w\<lparr>ncalls := Suc (ncalls w),
         events := events w @ Call tickers period interval
                    # map (\<lambda>t. Log (Errore t (projl (df t)))) tickers @ [Throttle]\<rparr>)"
proof -
  have none: "filter (\<lambda>t. \<not> isl (df t)) tickers = []"
    using fail by (simp add: filter_empty_conv)
  have all: "filter (\<lambda>t. isl (df t)) tickers = tickers"
    using fail by (simp add: filter_id_conv)
  have run: "download_batch p tickers period interval w =
      (Inr [],
       w\<lparr>ncalls := Suc (ncalls w),
         events := events w @ Call tickers period interval
                    # map (\<lambda>t. Log (Errore t (projl (df t)))) tickers\<rparr>)"
    using download_batch_multi [where p = p and w = w, OF resp] by (simp add: none all)
  then show ?thesis by (simp add: emit_def)
qed

theorem download_batch_all_tickers_fail_witness:
  "download_batch (\<lambda>n ts per itv. Inr (MultiIndex (\<lambda>t. Inl (Exception t))))
      [''ENI.MI'', ''ENEL.MI''] ''1y'' ''1d'' start =
     (Inr [],
      \<lparr>ncalls = 1,
       events = [Call [''ENI.MI'', ''ENEL.MI''] ''1y'' ''1d'',
                 Log (Errore ''ENI.MI'' (Exception ''ENI.MI'')),
                 Log (Errore ''ENEL.MI'' (Exception ''ENEL.MI''))]\<rparr>)
   \<and> main_loop (\<lambda>n ts per itv. Inr (MultiIndex (\<lambda>t. Inl (Exception t))))
      ''1y'' ''1d'' [[''ENI.MI'', ''ENEL.MI'']] [] start =
     ([],
      \<lparr>ncalls = 1,
       events = [Call [''ENI.MI'', ''ENEL.MI''] ''1y'' ''1d'',
                 Log (Errore ''ENI.MI'' (Exception ''ENI.MI'')),
                 Log (Errore ''ENEL.MI'' (Exception ''ENEL.MI'')),
                 Throttle]\<rparr>)"
  using download_batch_all_tickers_fail
    [where p = "\<lambda>n ts per itv. Inr (MultiIndex (\<lambda>t. Inl (Exception t)))" and w = start
       and tickers = "[''ENI.MI'', ''ENEL.MI'']" and period = "''1y''" and interval = "''1d''"
       and df = "\<lambda>t. Inl (Exception t)" and rows = "[]"]
  by (simp add: start_def)

section \<open>The driver on a failed batch\<close>

lemma succeeded_tables_simps [simp]:
  "succeeded_tables [] = []"
  "succeeded_tables (Inr batch_data # outcomes) = batch_data @ succeeded_tables outcomes"
  "succeeded_tables (Inl e # outcomes) = succeeded_tables outcomes"
  "succeeded_tables (xs @ ys) = succeeded_tables xs @ succeeded_tables ys"
  by (simp_all add: succeeded_tables_def)

lemma length_batch_outcomes:
  "length (batch_outcomes p period interval batches w) = length batches"
  by (induction batches arbitrary: w) (auto split: prod.splits sum.splits)

lemma main_loop_outcomes:
  "main_loop p period interval batches rows w = (rows', w') \<Longrightarrow>
   rows' = rows @ succeeded_tables (batch_outcomes p period interval batches w)"
proof (induction batches arbitrary: rows w)
  case Nil
  then show ?case by simp
next
  case (Cons batch batches)
  obtain r w1 where d: "download_batch p batch period interval w = (r, w1)"
    by (cases "download_batch p batch period interval w")
  show ?case
  proof (cases r)
    case (Inl e)
    with d Cons.prems
    have "main_loop p period interval batches rows
            (emit Throttle (emit (Log (Errore_batch batch e)) w1)) = (rows', w')"
      by simp
    from Cons.IH [OF this] d Inl show ?thesis by simp
  next
    case (Inr batch_data)
    with d Cons.prems
    have "main_loop p period interval batches (rows @ batch_data) (emit Throttle w1) = (rows', w')"
      by simp
    from Cons.IH [OF this] d Inr show ?thesis by simp
  qed
qed

lemma batch_outcomes_append:
  "main_loop p period interval xs rows w = (rows1, w1) \<Longrightarrow>
   batch_outcomes p period interval (xs @ ys) w =
     batch_outcomes p period interval xs w @ batch_outcomes p period interval ys w1"
proof (induction xs arbitrary: rows w)
  case Nil
  then show ?case by simp
next
  case (Cons batch batches)
  obtain r w0 where d: "download_batch p batch period interval w = (r, w0)"
    by (cases "download_batch p batch period interval w")
  show ?case
  proof (cases r)
    case (Inl e)
    with d Cons.prems
    have "main_loop p period interval batches rows
            (emit Throttle (emit (Log (Errore_batch batch e)) w0)) = (rows1, w1)"
      by simp
    from Cons.IH [OF this] d Inl show ?thesis by simp
  next
    case (Inr batch_data)
    with d Cons.prems
    have "main_loop p period interval batches (rows @ batch_data) (emit Throttle w0) = (rows1, w1)"
      by simp
    from Cons.IH [OF this] d Inr show ?thesis by simp
  qed
qed

lemma batch_outcomes_failed:
  "download_batch p batch period interval w = (Inl e, w2) \<Longrightarrow>
   batch_outcomes p period interval (batch # post) w =
     Inl e # batch_outcomes p period interval post
               (emit Throttle (emit (Log (Errore_batch batch e)) w2))"
  by simp

text \<open>
  Claim C4. Take a run over the batches \<open>pre @ batch # post\<close> in which the download of
  \<open>batch\<close> raises (as it does when the retries are exhausted) after \<open>pre\<close> has been
  processed with tables \<open>rows1\<close> accumulated. Then the driver raises nothing: it
  appends the line \<open>Errore_batch batch e\<close> to the log, pauses, and goes on with every
  batch of \<open>post\<close>: each is requested from the provider and followed by its pause. The
  run ends after the last of them, with one outcome of \<open>download_batch\<close> per batch.
  What it returns is the initial collection followed by the tables that
  \<open>download_batch\<close> returned for the batches that succeeded, in order, before and
  after the failed batch; the failed batch adds none.
\<close>

theorem main_loop_failed_batch:
  assumes before: "main_loop p period interval pre rows w = (rows1, w1)"
    and failed: "download_batch p batch period interval w1 = (Inl e, w2)"
  shows "\<exists>rows_post w' new.
      main_loop p period interval (pre @ batch # post) rows w = (rows1 @ rows_post, w')
    \<and> main_loop p period interval post []
        (emit Throttle (emit (Log (Errore_batch batch e)) w2)) = (rows_post, w')
    \<and> events w' = events w2 @ [Log (Errore_batch batch e), Throttle] @ new
    \<and> length (filter (\<lambda>ev. ev = Throttle) new) = length post
    \<and> (\<forall>b \<in> set post. Call b period interval \<in> set new)
    \<and> batch_outcomes p period interval (pre @ batch # post) w =
        batch_outcomes p period interval pre w @ Inl e
          # batch_outcomes p period interval post
              (emit Throttle (emit (Log (Errore_batch batch e)) w2))
    \<and> length (batch_outcomes p period interval (pre @ batch # post) w) = length (pre @ batch # post)
    \<and> rows1 = rows @ succeeded_tables (batch_outcomes p period interval pre w)
    \<and> rows_post = succeeded_tables (batch_outcomes p period interval post
                     (emit Throttle (emit (Log (Errore_batch batch e)) w2)))
    \<and> rows1 @ rows_post =
        rows @ succeeded_tables (batch_outcomes p period interval (pre @ batch # post) w)"
proof -
  let ?w3 = "emit Throttle (emit (Log (Errore_batch batch e)) w2)"
  obtain rows_post w' where post: "main_loop p period interval post [] ?w3 = (rows_post, w')"
    by (cases "main_loop p period interval post [] ?w3")
  have "main_loop p period interval (pre @ batch # post) rows w =
      main_loop p period interval post rows1 ?w3"
    using before failed by (simp add: main_loop_append)
  also have "\<dots> = (rows1 @ rows_post, w')"
    using main_loop_rows [of p period interval post rows1 ?w3] post by simp
  finally have run: "main_loop p period interval (pre @ batch # post) rows w = (rows1 @ rows_post, w')" .
  from main_loop_events [OF post] obtain new where new:
    "events w' = events ?w3 @ new"
    "length (filter (\<lambda>ev. ev = Throttle) new) = length post"
    "\<forall>b \<in> set post. Call b period interval \<in> set new"
    by blast
  have split: "batch_outcomes p period interval (pre @ batch # post) w =
        batch_outcomes p period interval pre w @ Inl e # batch_outcomes p period interval post ?w3"
    using batch_outcomes_append [OF before, of "batch # post"] batch_outcomes_failed [OF failed, of post]
    by simp
  have len: "length (batch_outcomes p period interval (pre @ batch # post) w) = length (pre @ batch # post)"
    by (rule length_batch_outcomes)
  have r1: "rows1 = rows @ succeeded_tables (batch_outcomes p period interval pre w)"
    using main_loop_outcomes [OF before] .
  have r2: "rows_post = succeeded_tables (batch_outcomes p period interval post ?w3)"
    using main_loop_outcomes [OF post] by simp
  have all: "rows1 @ rows_post =
        rows @ succeeded_tables (batch_outcomes p period interval (pre @ batch # post) w)"
    using r1 r2 split by simp
  have ev: "events w' = events w2 @ [Log (Errore_batch batch e), Throttle] @ new"
    using new(1) by simp
  show ?thesis
    using run post ev new(2,3) split len r1 r2 all by blast
qed

theorem main_loop_failed_batch_witness:
  "download_batch (\<lambda>n ts per itv. if n < 5 then Inl (Exception ''Too Many Requests'')
                                    else Inr (Flat [example_row, missing_row]))
      [''ENI.MI''] ''1y'' ''1d'' start =
     (Inl (RetryError (Exception ''Too Many Requests'')),
      \<lparr>ncalls = 5,
       events = [Call [''ENI.MI''] ''1y'' ''1d'', Sleep 5, Call [''ENI.MI''] ''1y'' ''1d'', Sleep 5,
                 Call [''ENI.MI''] ''1y'' ''1d'', Sleep 8, Call [''ENI.MI''] ''1y'' ''1d'', Sleep 16,
                 Call [''ENI.MI''] ''1y'' ''1d'']\<rparr>)
   \<and> main_loop (\<lambda>n ts per itv. if n < 5 then Inl (Exception ''Too Many Requests'')
                                    else Inr (Flat [example_row, missing_row]))
      ''1y'' ''1d'' [[''ENI.MI''], [''ENEL.MI'']] [] start =
     ([[\<lparr>row = example_row, Ticker = ''ENEL.MI''\<rparr>]],
      \<lparr>ncalls = 6,
       events = [Call [''ENI.MI''] ''1y'' ''1d'', Sleep 5, Call [''ENI.MI''] ''1y'' ''1d'', Sleep 5,
                 Call [''ENI.MI''] ''1y'' ''1d'', Sleep 8, Call [''ENI.MI''] ''1y'' ''1d'', Sleep 16,
                 Call [''ENI.MI''] ''1y'' ''1d'',
                 Log (Errore_batch [''ENI.MI''] (RetryError (Exception ''Too Many Requests''))),
                 Throttle,
                 Call [''ENEL.MI''] ''1y'' ''1d'',
                 Throttle]\<rparr>)"
proof -
  let ?p = "\<lambda>(n::nat) (ts::ticker list) (per::string) (itv::string).
      if n < 5 then Inl (Exception ''Too Many Requests'')
      else Inr (Flat [example_row, missing_row]) :: exn + response"
  let ?w2 = "\<lparr>ncalls = 5,
       events = [Call [''ENI.MI''] ''1y'' ''1d'', Sleep 5, Call [''ENI.MI''] ''1y'' ''1d'', Sleep 5,
                 Call [''ENI.MI''] ''1y'' ''1d'', Sleep 8, Call [''ENI.MI''] ''1y'' ''1d'', Sleep 16,
                 Call [''ENI.MI''] ''1y'' ''1d'']\<rparr>"
  let ?e = "RetryError (Exception ''Too Many Requests'')"
  let ?w3 = "emit Throttle (emit (Log (Errore_batch [''ENI.MI''] ?e)) ?w2)"
  have before: "main_loop ?p ''1y'' ''1d'' [] [] start = ([], start)"
    by simp
  have failed: "download_batch ?p [''ENI.MI''] ''1y'' ''1d'' start = (Inl ?e, ?w2)"
    using download_batch_five_failures
      [where p = ?p and w = start and tickers = "[''ENI.MI'']" and period = "''1y''"
         and interval = "''1d''" and err = "\<lambda>k. Exception ''Too Many Requests''"]
    by (simp add: start_def wait_exponential_def)
  have second: "download_batch ?p [''ENEL.MI''] ''1y'' ''1d'' ?w3 =
      (Inr [[\<lparr>row = example_row, Ticker = ''ENEL.MI''\<rparr>]],
       ?w3\<lparr>ncalls := 6, events := events ?w3 @ [Call [''ENEL.MI''] ''1y'' ''1d'']\<rparr>)"
    using download_batch_flat [where p = ?p and w = ?w3 and t = "''ENEL.MI''" and ts = "[]"
        and period = "''1y''" and interval = "''1d''" and df = "[example_row, missing_row]"]
    by (simp add: dropna_example tag_def)
  have post: "main_loop ?p ''1y'' ''1d'' [[''ENEL.MI'']] [] ?w3 =
      ([[\<lparr>row = example_row, Ticker = ''ENEL.MI''\<rparr>]],
       emit Throttle (?w3\<lparr>ncalls := 6, events := events ?w3 @ [Call [''ENEL.MI''] ''1y'' ''1d'']\<rparr>))"
    using second by simp
  from main_loop_failed_batch [OF before failed, of "[[''ENEL.MI'']]"] post
  have "main_loop ?p ''1y'' ''1d'' ([] @ [''ENI.MI''] # [[''ENEL.MI'']]) [] start =
      ([] @ [[\<lparr>row = example_row, Ticker = ''ENEL.MI''\<rparr>]],
       emit Throttle (?w3\<lparr>ncalls := 6, events := events ?w3 @ [Call [''ENEL.MI''] ''1y'' ''1d'']\<rparr>))"
    by auto
  then show ?thesis using failed by (simp add: emit_def)
qed

section \<open>Properties of saving the results\<close>

text \<open>
  Claim C9. With an empty collection of tables nothing is written: no per-ticker file, no
  combined file and no summary. Nothing is raised either: whenever the loop over the
  batches ends with no table, \<open>main\<close> returns normally with no output.
\<close>

theorem save_results_empty:
  "save_results groupby_agg period interval [] = []
   \<and> (\<forall>yf_constituents p a w tickers batches w1.
        get_index_constituents yf_constituents (arg_index a) = Inr tickers
        \<and> batch_plan tickers (arg_batch_size a) = Inr batches
        \<and> main_loop p (arg_period a) (arg_interval a) batches [] w = ([], w1)
        \<longrightarrow> main yf_constituents p groupby_agg a w = Inr ([], w1))"
  by (simp add: save_results_def main_def)

theorem save_results_empty_witness:
  "save_results (\<lambda>rows. ()) ''1y'' ''1d'' [] = []
   \<and> main (\<lambda>i. Inr (DataFrame [''Symbol'' \<mapsto> [Some ''ENI.MI'']]))
        (\<lambda>n ts per itv. Inl (Exception ''Too Many Requests'')) (\<lambda>rows. ())
        \<lparr>arg_index = ''FTSEMIB.MI'', arg_period = ''1y'', arg_interval = ''1d'', arg_batch_size = 5\<rparr>
        start =
      Inr ([],
        \<lparr>ncalls = 5,
         events = [Call [''ENI.MI''] ''1y'' ''1d'', Sleep 5, Call [''ENI.MI''] ''1y'' ''1d'', Sleep 5,
                   Call [''ENI.MI''] ''1y'' ''1d'', Sleep 8, Call [''ENI.MI''] ''1y'' ''1d'', Sleep 16,
                   Call [''ENI.MI''] ''1y'' ''1d'',
                   Log (Errore_batch [''ENI.MI''] (RetryError (Exception ''Too Many Requests''))),
                   Throttle]\<rparr>)"
proof -
  let ?yf = "\<lambda>i::string. Inr (DataFrame [''Symbol'' \<mapsto> [Some ''ENI.MI'']]) :: exn + constituents"
  let ?p = "\<lambda>(n::nat) (ts::ticker list) (per::string) (itv::string). Inl (Exception ''Too Many Requests'') :: exn + response"
  let ?a = "\<lparr>arg_index = ''FTSEMIB.MI'', arg_period = ''1y'', arg_interval = ''1d'', arg_batch_size = 5\<rparr>"
  let ?w1 = "\<lparr>ncalls = 5,
         events = [Call [''ENI.MI''] ''1y'' ''1d'', Sleep 5, Call [''ENI.MI''] ''1y'' ''1d'', Sleep 5,
                   Call [''ENI.MI''] ''1y'' ''1d'', Sleep 8, Call [''ENI.MI''] ''1y'' ''1d'', Sleep 16,
                   Call [''ENI.MI''] ''1y'' ''1d'',
                   Log (Errore_batch [''ENI.MI''] (RetryError (Exception ''Too Many Requests''))),
                   Throttle]\<rparr>"
  have c: "get_index_constituents ?yf (arg_index ?a) = Inr [''ENI.MI'']"
    by (simp add: get_index_constituents_def constituents_try_def unique_def dropna_series_def)
  have b: "batch_plan [''ENI.MI''] (arg_batch_size ?a) = Inr [[''ENI.MI'']]"
    by (simp add: batch_plan_chunks [of 5, simplified] chunks.simps [of 5 "[''ENI.MI'']"])
  have l: "main_loop ?p (arg_period ?a) (arg_interval ?a) [[''ENI.MI'']] [] start = ([], ?w1)"
    using download_batch_always_raising by (simp add: emit_def)
  from save_results_empty [of "\<lambda>rows. ()" "''1y''" "''1d''"] c b l
  have "main ?yf ?p (\<lambda>rows. ()) ?a start = Inr ([], ?w1)"
    by blast
  moreover have "save_results (\<lambda>rows. ()) ''1y'' ''1d'' [] = []"
    using save_results_empty [of "\<lambda>rows. ()" "''1y''" "''1d''"] by blast
  ultimately show ?thesis by simp
qed

section \<open>Properties of the summary statistics\<close>

lemma agg_min_Min: "xs \<noteq> [] \<Longrightarrow> agg_min xs = Some (Min (set xs))"
  by (cases xs) (simp_all add: agg_min_def Min.set_eq_fold [symmetric])

lemma agg_max_Max: "xs \<noteq> [] \<Longrightarrow> agg_max xs = Some (Max (set xs))"
  by (cases xs) (simp_all add: agg_max_def Max.set_eq_fold [symmetric])

lemma groups_sorted:
  "map group (groupby_close_agg all_df) = sorted_list_of_set (Ticker ` set all_df)"
  by (simp add: groupby_close_agg_def o_def sorted_list_of_set_sort_remdups [symmetric])

lemma groupby_close_agg_row:
  assumes "s \<in> set (groupby_close_agg all_df)"
  shows "s = \<lparr>group = group s,
               min_close = agg_min (closes (group s) all_df),
               max_close = agg_max (closes (group s) all_df),
               mean_close = agg_mean (closes (group s) all_df),
               std_close = agg_std (closes (group s) all_df)\<rparr>
         \<and> group s \<in> Ticker ` set all_df"
  using assms by (auto simp add: groupby_close_agg_def)

lemma sqrt_100: "sqrt 100 = 10"
  by (rule real_sqrt_unique) simp_all

lemma example_groups:
  "sort (remdups (map Ticker (concat example_tables))) = [''T1'', ''T2'', ''T3'', ''T4'']"
  by (simp add: example_tables_def close_row_def)

lemma example_closes:
  "closes ''T1'' (concat example_tables) = [10, 20, 30]"
  "closes ''T2'' (concat example_tables) = [5, 5, 5]"
  "closes ''T3'' (concat example_tables) = [100, 200]"
  "closes ''T4'' (concat example_tables) = [42]"
  by (simp_all add: closes_def example_tables_def close_row_def dropna_series_def)

lemma example_summary:
  "groupby_close_agg (concat example_tables) =
     [\<lparr>group = ''T1'', min_close = Some 10, max_close = Some 30, mean_close = Some 20,
       std_close = Some 10\<rparr>,
      \<lparr>group = ''T2'', min_close = Some 5, max_close = Some 5, mean_close = Some 5,
       std_close = Some 0\<rparr>,
      \<lparr>group = ''T3'', min_close = Some 100, max_close = Some 200, mean_close = Some 150,
       std_close = Some (sqrt 5000)\<rparr>,
      \<lparr>group = ''T4'', min_close = Some 42, max_close = Some 42, mean_close = Some 42,
       std_close = None\<rparr>]"
  by (simp add: groupby_close_agg_def example_groups example_closes agg_min_def agg_max_def
      agg_mean_def agg_std_def sqrt_100 power2_eq_square)

text \<open>
  Claim C8. For a non-empty collection of tables the script writes the summary computed
  from the concatenation of all tables, as its last file. The summary has one row per
  ticker of the concatenation. For a ticker with at least one closing price the row holds
  the minimum, the maximum and the mean of that ticker's closing prices; with \<open>N \<ge> 2\<close>
  prices its standard deviation is the square root of the sum of the squared deviations
  from the mean divided by \<open>N - 1\<close>; with exactly one price the standard deviation is
  NaN (\<open>None\<close>), a value and not an error.
\<close>

theorem summary_stats_per_ticker:
  assumes "rows \<noteq> []"
  shows "save_results groupby_close_agg period interval rows =
      save_tables period interval rows @
        [(''all_history.csv'', Table (concat rows)),
         (''summary_stats.csv'', Stats (groupby_close_agg (concat rows)))]
    \<and> map group (groupby_close_agg (concat rows)) = sorted_list_of_set (Ticker ` set (concat rows))
    \<and> (\<forall>s \<in> set (groupby_close_agg (concat rows)).
          (closes (group s) (concat rows) \<noteq> [] \<longrightarrow>
             min_close s = Some (Min (set (closes (group s) (concat rows))))
           \<and> max_close s = Some (Max (set (closes (group s) (concat rows))))
           \<and> mean_close s = Some (sum_list (closes (group s) (concat rows))
                                    / real (length (closes (group s) (concat rows)))))
        \<and> (2 \<le> length (closes (group s) (concat rows)) \<longrightarrow>
             std_close s = Some (sqrt
               ((\<Sum>x\<leftarrow>closes (group s) (concat rows).
                   (x - sum_list (closes (group s) (concat rows))
                        / real (length (closes (group s) (concat rows))))\<^sup>2)
                / real (length (closes (group s) (concat rows)) - 1))))
        \<and> (length (closes (group s) (concat rows)) = 1 \<longrightarrow> std_close s = None))"
proof -
  have files: "save_results groupby_close_agg period interval rows =
      save_tables period interval rows @
        [(''all_history.csv'', Table (concat rows)),
         (''summary_stats.csv'', Stats (groupby_close_agg (concat rows)))]"
    using assms by (simp add: save_results_def)
  have stats: "(closes (group s) (concat rows) \<noteq> [] \<longrightarrow>
             min_close s = Some (Min (set (closes (group s) (concat rows))))
           \<and> max_close s = Some (Max (set (closes (group s) (concat rows))))
           \<and> mean_close s = Some (sum_list (closes (group s) (concat rows))
                                    / real (length (closes (group s) (concat rows)))))
        \<and> (2 \<le> length (closes (group s) (concat rows)) \<longrightarrow>
             std_close s = Some (sqrt
               ((\<Sum>x\<leftarrow>closes (group s) (concat rows).
                   (x - sum_list (closes (group s) (concat rows))
                        / real (length (closes (group s) (concat rows))))\<^sup>2)
                / real (length (closes (group s) (concat rows)) - 1))))
        \<and> (length (closes (group s) (concat rows)) = 1 \<longrightarrow> std_close s = None)"
    if s: "s \<in> set (groupby_close_agg (concat rows))" for s
  proof -
    let ?xs = "closes (group s) (concat rows)"
    from groupby_close_agg_row [OF s]
    have mn: "min_close s = agg_min ?xs" and mx: "max_close s = agg_max ?xs"
      and me: "mean_close s = agg_mean ?xs" and sd: "std_close s = agg_std ?xs"
      by (metis summary_row.select_convs)+
    show ?thesis
      by (simp add: mn mx me sd agg_min_Min agg_max_Max agg_mean_def agg_std_def)
  qed
  show ?thesis
    using files groups_sorted stats by blast
qed

theorem summary_stats_per_ticker_witness:
  "example_tables \<noteq> []
   \<and> last (save_results groupby_close_agg ''1y'' ''1d'' example_tables) =
      (''summary_stats.csv'',
       Stats
        [\<lparr>group = ''T1'', min_close = Some 10, max_close = Some 30, mean_close = Some 20,
          std_close = Some 10\<rparr>,
         \<lparr>group = ''T2'', min_close = Some 5, max_close = Some 5, mean_close = Some 5,
          std_close = Some 0\<rparr>,
         \<lparr>group = ''T3'', min_close = Some 100, max_close = Some 200, mean_close = Some 150,
          std_close = Some (sqrt 5000)\<rparr>,
         \<lparr>group = ''T4'', min_close = Some 42, max_close = Some 42, mean_close = Some 42,
          std_close = None\<rparr>])"
proof -
  have ne: "example_tables \<noteq> []"
    by (simp add: example_tables_def)
  from summary_stats_per_ticker [OF ne, of "''1y''" "''1d''"]
  have "save_results groupby_close_agg ''1y'' ''1d'' example_tables =
      save_tables ''1y'' ''1d'' example_tables @
        [(''all_history.csv'', Table (concat example_tables)),
         (''summary_stats.csv'', Stats (groupby_close_agg (concat example_tables)))]"
    by blast
  then show ?thesis
    using ne by (simp add: example_summary)
qed

end
